theory Spec2Isabelle
  imports Main "HOL-Library.Word"
begin

section \<open>Package chi: Sentry middleware for the chi router\<close>

text \<open>
  A shallow embedding of \<^verbatim>\<open>chi.go\<close>. The package wraps an HTTP handler: it resolves a
  request-scoped hub, starts a transaction, defers the transaction's finish and a
  panic-recovery step, calls the wrapped handler and renames the transaction after the
  route pattern.

  Go's \<^verbatim>\<open>defer\<close>, \<^verbatim>\<open>panic\<close> and \<^verbatim>\<open>recover\<close> are made explicit: a function body ends
  either normally or panicking with a value, and the deferred calls of the frame then run
  in last-in-first-out order on that state. The calls the wrapper makes to the reporting
  SDK and to the router are recorded in order, so that properties such as
  "finished exactly once" are properties of the recorded calls.
\<close>

subsection \<open>Configuration\<close>

text \<open>\<^verbatim>\<open>time.Duration\<close> is an \<^verbatim>\<open>int64\<close> count of nanoseconds.\<close>

type_synonym Duration = "64 word"

definition Second :: Duration where
  "Second = 1000000000"

record Handler =
  repanic :: bool
  waitForDelivery :: bool
  timeout :: Duration

record Options =
  Repanic :: bool
  WaitForDelivery :: bool
  Timeout :: Duration

definition New :: "Options \<Rightarrow> Handler" where
  "New options =
     (let timeout0 = Timeout options;
          timeout1 = (if timeout0 = 0 then 2 * Second else timeout0)
      in \<lparr>repanic = Repanic options,
          waitForDelivery = WaitForDelivery options,
          timeout = timeout1\<rparr>)"

subsection \<open>Requests, contexts and the state of the collaborators\<close>

text \<open>
  Hubs and chi routing contexts are shared mutable objects reached through pointers, so
  they live in a store and are named by references. A \<^verbatim>\<open>context.Context\<close> is the record of
  the values this package reads or writes under their keys; a missing value is \<open>None\<close>
  (the \<^verbatim>\<open>nil\<close> the lookups return).
\<close>

type_synonym hub_ref = nat
type_synonym rctx_ref = nat
type_synonym EventID = string

record Context =
  ctx_hub :: "hub_ref option" \<comment> \<open>\<^verbatim>\<open>sentry.HubContextKey\<close>\<close>
  ctx_route :: "rctx_ref option" \<comment> \<open>\<^verbatim>\<open>chi.RouteCtxKey\<close>\<close>
  ctx_transaction :: "string option" \<comment> \<open>the transaction the SDK stores in the context\<close>

record request =
  url_path :: string \<comment> \<open>\<^verbatim>\<open>r.URL.Path\<close>\<close>
  req_ctx :: Context \<comment> \<open>\<^verbatim>\<open>r.Context()\<close>\<close>

text \<open>
  A panic in flight carries a value, and \<^verbatim>\<open>recover()\<close> returns \<^verbatim>\<open>nil\<close> exactly when no
  panic is in flight: the Go runtime turns \<^verbatim>\<open>panic(nil)\<close> into a non-nil
  \<^verbatim>\<open>*runtime.PanicNilError\<close>. \<open>panic_value\<close> is the type of these non-nil values.
\<close>

datatype panic_value = PanicString string | PanicError string | RuntimeError string

definition nil_dereference :: panic_value where
  "nil_dereference = RuntimeError ''invalid memory address or nil pointer dereference''"

datatype outcome = Returned | Panicked panic_value

datatype transaction_source = SourceURL

datatype span_option =
    OpName string
  | ContinueFromRequest request
  | TransctionSource transaction_source

record transaction =
  tx_name :: string
  tx_options :: "span_option list"
  tx_ctx :: Context \<comment> \<open>\<^verbatim>\<open>transaction.Context()\<close>\<close>

record scope =
  scope_request :: "request option"
  scope_transaction :: string

record world =
  CurrentHub :: hub_ref \<comment> \<open>the process-wide hub, \<^verbatim>\<open>sentry.CurrentHub()\<close>\<close>
  next_hub :: hub_ref \<comment> \<open>allocator: the reference a new hub gets\<close>
  hubs :: "hub_ref \<Rightarrow> scope" \<comment> \<open>the scope on top of each hub\<close>
  route_contexts :: "rctx_ref \<Rightarrow> string list" \<comment> \<open>\<^verbatim>\<open>RoutePatterns\<close> of each \<^verbatim>\<open>*chi.Context\<close>\<close>

text \<open>
  The wrapped handler is any function of the request and the state of the world; it
  returns normally or panics. The response writer is passed through untouched and is
  part of the world. An \<^verbatim>\<open>http.Handler\<close> is given by its \<^verbatim>\<open>ServeHTTP\<close> method, and
  \<^verbatim>\<open>http.HandlerFunc\<close> is the function type whose \<^verbatim>\<open>ServeHTTP\<close> calls the function.
\<close>

type_synonym http_HandlerFunc = "request \<Rightarrow> world \<Rightarrow> outcome \<times> world"
type_synonym http_Handler = "request \<Rightarrow> world \<Rightarrow> outcome \<times> world"

definition ServeHTTP :: "http_HandlerFunc \<Rightarrow> http_Handler" where
  "ServeHTTP f = (\<lambda>r w. f r w)"

text \<open>The calls to the collaborators, as the wrapper makes them.\<close>

record recover_context =
  rc_parent :: Context
  rc_request :: request \<comment> \<open>the value under \<^verbatim>\<open>sentry.RequestContextKey\<close>\<close>

datatype call =
    Call_Clone hub_ref hub_ref \<comment> \<open>the hub cloned and the clone\<close>
  | Call_StartTransaction Context string "span_option list"
  | Call_SetRequest hub_ref request
  | Call_ServeHTTP request
  | Call_RoutePattern "rctx_ref option"
  | Call_SetTransaction hub_ref string
  | Call_RecoverWithContext hub_ref recover_context panic_value
  | Call_Flush hub_ref Duration
  | Call_Finish transaction

type_synonym state = "world \<times> call list"

text \<open>
  Two results of the collaborators decide what the wrapper does next and are not decided
  by anything in this package; they are parameters:
  \<^item> chi's \<^verbatim>\<open>(*Context).RoutePattern\<close>, applied to the route patterns of the routing
    context or to \<open>None\<close> for a \<^verbatim>\<open>nil\<close> receiver; it returns a pattern or panics;
  \<^item> the event identifier \<^verbatim>\<open>hub.RecoverWithContext\<close> returns, \<open>None\<close> when the SDK
    produced no event.
\<close>

record collaborators =
  RoutePattern :: "string list option \<Rightarrow> panic_value + string"
  RecoverWithContext :: "hub_ref \<Rightarrow> recover_context \<Rightarrow> panic_value \<Rightarrow> world \<Rightarrow> EventID option"

subsection \<open>The SDK and router operations the wrapper calls\<close>

text \<open>
  sentry-go, chi and net/http are libraries outside the package. Their operations are
  modelled by what they do to the values the wrapper reads afterwards:
  \<^item> \<^verbatim>\<open>Clone\<close> allocates a new hub whose scope is a copy of the cloned hub's scope;
  \<^item> \<^verbatim>\<open>StartTransaction\<close> gives the transaction the wrapper asked for, under the name
    and with the options it passed; the transaction's context is derived from the
    context passed, so it carries the same hub and routing context. When the context
    already carries a transaction the SDK hands that one back; the model does not tell
    the two cases apart;
  \<^item> \<^verbatim>\<open>SetRequest\<close> and \<^verbatim>\<open>SetTransaction\<close> write the scope of the hub;
  \<^item> none of these operations panics.
\<close>

definition GetHubFromContext :: "Context \<Rightarrow> hub_ref option" where
  "GetHubFromContext ctx = ctx_hub ctx"

definition SetHubOnContext :: "Context \<Rightarrow> hub_ref \<Rightarrow> Context" where
  "SetHubOnContext ctx hub = ctx\<lparr>ctx_hub := Some hub\<rparr>"

definition Clone :: "hub_ref \<Rightarrow> world \<Rightarrow> hub_ref \<times> world" where
  "Clone hub w =
     (let new = next_hub w
      in (new, w\<lparr>next_hub := Suc new, hubs := (hubs w)(new := hubs w hub)\<rparr>))"

definition StartTransaction :: "Context \<Rightarrow> string \<Rightarrow> span_option list \<Rightarrow> transaction" where
  "StartTransaction ctx name options =
     \<lparr>tx_name = name, tx_options = options, tx_ctx = ctx\<lparr>ctx_transaction := Some name\<rparr>\<rparr>"

definition WithContext :: "request \<Rightarrow> Context \<Rightarrow> request" where
  "WithContext r ctx = r\<lparr>req_ctx := ctx\<rparr>"

definition SetRequest :: "hub_ref \<Rightarrow> request \<Rightarrow> world \<Rightarrow> world" where
  "SetRequest hub r w = w\<lparr>hubs := (hubs w)(hub := (hubs w hub)\<lparr>scope_request := Some r\<rparr>)\<rparr>"

definition SetTransaction :: "hub_ref \<Rightarrow> string \<Rightarrow> world \<Rightarrow> world" where
  "SetTransaction hub name w =
     w\<lparr>hubs := (hubs w)(hub := (hubs w hub)\<lparr>scope_transaction := name\<rparr>)\<rparr>"

definition RouteContext :: "Context \<Rightarrow> rctx_ref option" where
  "RouteContext ctx = ctx_route ctx"

definition WithValue_RequestContextKey :: "Context \<Rightarrow> request \<Rightarrow> recover_context" where
  "WithValue_RequestContextKey ctx r = \<lparr>rc_parent = ctx, rc_request = r\<rparr>"

subsection \<open>Deferred calls and panic recovery\<close>

text \<open>
  \<^verbatim>\<open>recoverWithSentry\<close> is called as a deferred function, so its \<^verbatim>\<open>recover()\<close> sees the
  panic in flight (\<open>Some err\<close>) or \<^verbatim>\<open>nil\<close> (\<open>None\<close>) and stops the panic. The panic state
  it returns is the one it leaves behind: \<open>Some err\<close> after \<^verbatim>\<open>panic(err)\<close>.
\<close>

definition recoverWithSentry ::
  "collaborators \<Rightarrow> Handler \<Rightarrow> hub_ref \<Rightarrow> request \<Rightarrow> panic_value option \<Rightarrow> state
     \<Rightarrow> panic_value option \<times> state" where
  "recoverWithSentry env h hub r panicking s =
     (case panicking of
        None \<Rightarrow> (None, s)
      | Some err \<Rightarrow>
          (let (w, cs) = s;
               rc = WithValue_RequestContextKey (req_ctx r) r;
               eventID = RecoverWithContext env hub rc err w;
               cs1 = cs @ [Call_RecoverWithContext hub rc err];
               cs2 = (if eventID \<noteq> None \<and> waitForDelivery h
                      then cs1 @ [Call_Flush hub (timeout h)] else cs1)
           in if repanic h then (Some err, (w, cs2)) else (None, (w, cs2))))"

text \<open>
  A \<^verbatim>\<open>defer\<close> statement evaluates the function and its arguments and pushes the call; the
  head of the list is the call registered last and runs first.
\<close>

datatype deferred =
    Defer_Finish transaction
  | Defer_recoverWithSentry Handler hub_ref request

fun call_deferred ::
  "collaborators \<Rightarrow> deferred \<Rightarrow> panic_value option \<Rightarrow> state \<Rightarrow> panic_value option \<times> state" where
  "call_deferred env (Defer_Finish tx) p (w, cs) = (p, (w, cs @ [Call_Finish tx]))"
| "call_deferred env (Defer_recoverWithSentry h hub r) p s = recoverWithSentry env h hub r p s"

fun run_deferred ::
  "collaborators \<Rightarrow> deferred list \<Rightarrow> panic_value option \<Rightarrow> state \<Rightarrow> panic_value option \<times> state" where
  "run_deferred env [] p s = (p, s)"
| "run_deferred env (d # ds) p s =
     (let (p', s') = call_deferred env d p s in run_deferred env ds p' s')"

subsection \<open>The wrapper\<close>

text \<open>
  \<open>handle_entry\<close> is the body of the wrapper up to the call of the wrapped handler
  (lines 111 to 135): the hub, the transaction, the request handed on, and the deferred
  calls in the order of the stack.
\<close>

record frame =
  fr_hub :: hub_ref
  fr_transaction :: transaction
  fr_request :: request
  fr_deferred :: "deferred list"
  fr_world :: world
  fr_calls :: "call list"

definition handle_entry :: "Handler \<Rightarrow> request \<Rightarrow> world \<Rightarrow> frame" where
  "handle_entry h r0 w0 =
     (let ctx0 = req_ctx r0;
          (hub, ctx, w1, cs1) =
            (case GetHubFromContext ctx0 of
               None \<Rightarrow>
                 (let (hub, w1) = Clone (CurrentHub w0) w0
                  in (hub, SetHubOnContext ctx0 hub, w1, [Call_Clone (CurrentHub w0) hub]))
             | Some hub \<Rightarrow> (hub, ctx0, w0, []));
          options = [OpName ''http.server'', ContinueFromRequest r0, TransctionSource SourceURL];
          transaction = StartTransaction ctx (url_path r0) options;
          cs2 = cs1 @ [Call_StartTransaction ctx (url_path r0) options];
          defers1 = [Defer_Finish transaction];
          r = WithContext r0 (tx_ctx transaction);
          w2 = SetRequest hub r w1;
          cs3 = cs2 @ [Call_SetRequest hub r];
          defers2 = Defer_recoverWithSentry h hub r # defers1
      in \<lparr>fr_hub = hub, fr_transaction = transaction, fr_request = r,
          fr_deferred = defers2, fr_world = w2, fr_calls = cs3\<rparr>)"

text \<open>
  \<open>handle_exit\<close> is the part after the wrapped handler has returned (lines 141 and 142).
  Calling \<^verbatim>\<open>Scope\<close> on a \<^verbatim>\<open>nil\<close> hub dereferences it; the operands are evaluated from left to
  right, so the hub is looked up before \<^verbatim>\<open>RoutePattern\<close> is called.
\<close>

definition handle_exit ::
  "collaborators \<Rightarrow> transaction \<Rightarrow> request \<Rightarrow> state \<Rightarrow> panic_value option \<times> state" where
  "handle_exit env transaction r s =
     (let (w, cs) = s;
          rctx = RouteContext (req_ctx r)
      in case GetHubFromContext (tx_ctx transaction) of
           None \<Rightarrow> (Some nil_dereference, (w, cs))
         | Some hub \<Rightarrow>
             (case RoutePattern env (map_option (route_contexts w) rctx) of
                Inl v \<Rightarrow> (Some v, (w, cs @ [Call_RoutePattern rctx]))
              | Inr name \<Rightarrow>
                  (None, (SetTransaction hub name w,
                          cs @ [Call_RoutePattern rctx, Call_SetTransaction hub name]))))"

definition handle ::
  "collaborators \<Rightarrow> Handler \<Rightarrow> http_Handler \<Rightarrow> request \<Rightarrow> world \<Rightarrow> outcome \<times> state" where
  "handle env h handler r0 w0 =
     (let fr = handle_entry h r0 w0;
          (res, w3) = handler (fr_request fr) (fr_world fr);
          cs3 = fr_calls fr @ [Call_ServeHTTP (fr_request fr)];
          (p, s4) = (case res of
                       Panicked v \<Rightarrow> (Some v, (w3, cs3))
                     | Returned \<Rightarrow> handle_exit env (fr_transaction fr) (fr_request fr) (w3, cs3));
          (p', s5) = run_deferred env (fr_deferred fr) p s4
      in (case p' of None \<Rightarrow> Returned | Some v \<Rightarrow> Panicked v, s5))"

definition Handle ::
  "collaborators \<Rightarrow> Handler \<Rightarrow> http_Handler \<Rightarrow> request \<Rightarrow> world \<Rightarrow> outcome \<times> state" where
  "Handle env h handler = handle env h handler"

definition HandleFunc ::
  "collaborators \<Rightarrow> Handler \<Rightarrow> http_HandlerFunc \<Rightarrow> request \<Rightarrow> world \<Rightarrow> outcome \<times> state" where
  "HandleFunc env h handler = handle env h (ServeHTTP handler)"

subsection \<open>Reading a run\<close>

text \<open>
  A run of the wrapper gives the outcome its caller sees, the world it leaves and the
  calls it made. The functions below select the calls of one kind, in order.
\<close>

definition outcome_of :: "outcome \<times> state \<Rightarrow> outcome" where
  "outcome_of run = fst run"

definition world_of :: "outcome \<times> state \<Rightarrow> world" where
  "world_of run = fst (snd run)"

definition calls_of :: "outcome \<times> state \<Rightarrow> call list" where
  "calls_of run = snd (snd run)"

fun started :: "call list \<Rightarrow> transaction list" where
  "started [] = []"
| "started (Call_StartTransaction ctx name options # cs) =
     StartTransaction ctx name options # started cs"
| "started (c # cs) = started cs"

fun finished :: "call list \<Rightarrow> transaction list" where
  "finished [] = []"
| "finished (Call_Finish tx # cs) = tx # finished cs"
| "finished (c # cs) = finished cs"

fun recovered :: "call list \<Rightarrow> (hub_ref \<times> recover_context \<times> panic_value) list" where
  "recovered [] = []"
| "recovered (Call_RecoverWithContext hub rc v # cs) = (hub, rc, v) # recovered cs"
| "recovered (c # cs) = recovered cs"

fun cloned :: "call list \<Rightarrow> (hub_ref \<times> hub_ref) list" where
  "cloned [] = []"
| "cloned (Call_Clone hub new # cs) = (hub, new) # cloned cs"
| "cloned (c # cs) = cloned cs"

fun flushed :: "call list \<Rightarrow> (hub_ref \<times> Duration) list" where
  "flushed [] = []"
| "flushed (Call_Flush hub d # cs) = (hub, d) # flushed cs"
| "flushed (c # cs) = flushed cs"

text \<open>The calls of the recovery step between the report and the finish.\<close>

definition flush_calls ::
  "collaborators \<Rightarrow> Handler \<Rightarrow> hub_ref \<Rightarrow> request \<Rightarrow> panic_value \<Rightarrow> world \<Rightarrow> call list" where
  "flush_calls env h hub r v w =
     (if RecoverWithContext env hub (WithValue_RequestContextKey (req_ctx r) r) v w \<noteq> None
         \<and> waitForDelivery h
      then [Call_Flush hub (timeout h)] else [])"

text \<open>What the wrapped handler does when the wrapper calls it in a run.\<close>

definition served :: "Handler \<Rightarrow> http_Handler \<Rightarrow> request \<Rightarrow> world \<Rightarrow> outcome \<times> world" where
  "served h handler r0 w0 =
     handler (fr_request (handle_entry h r0 w0)) (fr_world (handle_entry h r0 w0))"

subsection \<open>Concrete requests, handlers and collaborators\<close>

text \<open>
  A world with the process-wide hub at reference 0; a request for \<^verbatim>\<open>/users/42\<close> that
  reaches the wrapper inside a chi router (routing context 0) without a hub, the same
  request carrying hub 3, and one that reaches the wrapper outside any router.
\<close>

definition example_world :: world where
  "example_world =
     \<lparr>CurrentHub = 0, next_hub = 1,
      hubs = (\<lambda>_. \<lparr>scope_request = None, scope_transaction = []\<rparr>),
      route_contexts = (\<lambda>_. [])\<rparr>"

definition example_request :: request where
  "example_request =
     \<lparr>url_path = ''/users/42'',
      req_ctx = \<lparr>ctx_hub = None, ctx_route = Some 0, ctx_transaction = None\<rparr>\<rparr>"

definition example_request_with_hub :: request where
  "example_request_with_hub =
     \<lparr>url_path = ''/users/42'',
      req_ctx = \<lparr>ctx_hub = Some 3, ctx_route = Some 0, ctx_transaction = None\<rparr>\<rparr>"




definition panicking_handler :: http_Handler where
  "panicking_handler r w = (Panicked (PanicString ''boom''), w)"

text \<open>
  Collaborators whose \<^verbatim>\<open>RoutePattern\<close> joins the route patterns and dereferences a
  \<^verbatim>\<open>nil\<close> receiver, and whose report always produces an event.
\<close>

definition example_collaborators :: collaborators where
  "example_collaborators =
     \<lparr>RoutePattern = (\<lambda>x. case x of None \<Rightarrow> Inl nil_dereference | Some ps \<Rightarrow> Inr (concat ps)),
      RecoverWithContext = (\<lambda>hub rc v w. Some ''event-1'')\<rparr>"

section \<open>Properties\<close>

subsection \<open>Selecting calls from concatenated traces\<close>

lemma started_append: "started (xs @ ys) = started xs @ started ys"
  by (induction xs rule: started.induct) simp_all

lemma finished_append: "finished (xs @ ys) = finished xs @ finished ys"
  by (induction xs rule: finished.induct) simp_all

lemma recovered_append: "recovered (xs @ ys) = recovered xs @ recovered ys"
  by (induction xs rule: recovered.induct) simp_all

lemma cloned_append: "cloned (xs @ ys) = cloned xs @ cloned ys"
  by (induction xs rule: cloned.induct) simp_all

lemma flushed_append: "flushed (xs @ ys) = flushed xs @ flushed ys"
  by (induction xs rule: flushed.induct) simp_all

lemmas select_append =
  started_append finished_append recovered_append cloned_append flushed_append

lemma select_flush_calls:
  "started (flush_calls env h hub r v w) = []"
  "finished (flush_calls env h hub r v w) = []"
  "recovered (flush_calls env h hub r v w) = []"
  "cloned (flush_calls env h hub r v w) = []"
  by (simp_all add: flush_calls_def)

lemma run_projections:
  "outcome_of (x, w, cs) = x" "world_of (x, w, cs) = w" "calls_of (x, w, cs) = cs"
  by (simp_all add: outcome_of_def world_of_def calls_of_def)

subsection \<open>The wrapper up to the call of the wrapped handler\<close>

lemma ctx_hub_update_same: "ctx_hub c = Some x \<Longrightarrow> c\<lparr>ctx_hub := Some x\<rparr> = c"
  by (cases c) auto

lemma entry_hub:
  "fr_hub (handle_entry h r0 w0) =
     (case ctx_hub (req_ctx r0) of None \<Rightarrow> next_hub w0 | Some hub \<Rightarrow> hub)"
  by (simp add: handle_entry_def GetHubFromContext_def Clone_def Let_def split: option.split)

lemma entry_transaction:
  "fr_transaction (handle_entry h r0 w0) =
     StartTransaction ((req_ctx r0)\<lparr>ctx_hub := Some (fr_hub (handle_entry h r0 w0))\<rparr>) (url_path r0)
       [OpName ''http.server'', ContinueFromRequest r0, TransctionSource SourceURL]"
  by (simp add: handle_entry_def GetHubFromContext_def SetHubOnContext_def Clone_def Let_def
      ctx_hub_update_same split: option.split)

lemma entry_request:
  "fr_request (handle_entry h r0 w0) =
     WithContext r0 (tx_ctx (fr_transaction (handle_entry h r0 w0)))"
  by (simp add: handle_entry_def GetHubFromContext_def SetHubOnContext_def Clone_def Let_def
      split: option.split)

lemma entry_deferred:
  "fr_deferred (handle_entry h r0 w0) =
     [Defer_recoverWithSentry h (fr_hub (handle_entry h r0 w0)) (fr_request (handle_entry h r0 w0)),
      Defer_Finish (fr_transaction (handle_entry h r0 w0))]"
  by (simp add: handle_entry_def GetHubFromContext_def SetHubOnContext_def Clone_def Let_def
      split: option.split)

lemma entry_calls:
  "fr_calls (handle_entry h r0 w0) =
     (case ctx_hub (req_ctx r0) of
        None \<Rightarrow> [Call_Clone (CurrentHub w0) (next_hub w0)]
      | Some hub \<Rightarrow> [])
     @ [Call_StartTransaction
          ((req_ctx r0)\<lparr>ctx_hub := Some (fr_hub (handle_entry h r0 w0))\<rparr>) (url_path r0)
          [OpName ''http.server'', ContinueFromRequest r0, TransctionSource SourceURL],
        Call_SetRequest (fr_hub (handle_entry h r0 w0)) (fr_request (handle_entry h r0 w0))]"
  by (simp add: handle_entry_def GetHubFromContext_def SetHubOnContext_def Clone_def Let_def
      ctx_hub_update_same split: option.split)


lemma entry_tx_hub:
  "GetHubFromContext (tx_ctx (fr_transaction (handle_entry h r0 w0))) =
     Some (fr_hub (handle_entry h r0 w0))"
  by (simp add: entry_transaction StartTransaction_def GetHubFromContext_def)


lemma entry_route:
  "RouteContext (req_ctx (fr_request (handle_entry h r0 w0))) = ctx_route (req_ctx r0)"
  by (simp add: entry_request entry_transaction StartTransaction_def RouteContext_def
      WithContext_def)

lemma select_entry_calls:
  "started (fr_calls (handle_entry h r0 w0)) = [fr_transaction (handle_entry h r0 w0)]"
  "finished (fr_calls (handle_entry h r0 w0)) = []"
  "recovered (fr_calls (handle_entry h r0 w0)) = []"
  by (simp_all add: entry_calls entry_transaction [symmetric] select_append split: option.split)

subsection \<open>Running the deferred calls\<close>

lemma run_deferred_no_panic:
  "run_deferred env [Defer_recoverWithSentry h hub r, Defer_Finish tx] None (w, cs) =
     (None, (w, cs @ [Call_Finish tx]))"
  by (simp add: recoverWithSentry_def)

lemma run_deferred_panic:
  "run_deferred env [Defer_recoverWithSentry h hub r, Defer_Finish tx] (Some v) (w, cs) =
     (if repanic h then Some v else None,
      (w, cs @ [Call_RecoverWithContext hub (WithValue_RequestContextKey (req_ctx r) r) v]
             @ flush_calls env h hub r v w @ [Call_Finish tx]))"
  by (simp add: recoverWithSentry_def flush_calls_def Let_def)

subsection \<open>The three ways a run can go\<close>

text \<open>
  The wrapped handler panics; it returns and the route pattern is found; it returns and
  the lookup of the route pattern panics.
\<close>

lemma handle_panicked:
  assumes "served h handler r0 w0 = (Panicked v, w3)"
  shows "handle env h handler r0 w0 =
     (if repanic h then Panicked v else Returned,
      (w3, fr_calls (handle_entry h r0 w0)
           @ [Call_ServeHTTP (fr_request (handle_entry h r0 w0)),
              Call_RecoverWithContext (fr_hub (handle_entry h r0 w0))
                (WithValue_RequestContextKey (req_ctx (fr_request (handle_entry h r0 w0)))
                   (fr_request (handle_entry h r0 w0))) v]
           @ flush_calls env h (fr_hub (handle_entry h r0 w0))
               (fr_request (handle_entry h r0 w0)) v w3
           @ [Call_Finish (fr_transaction (handle_entry h r0 w0))]))"
  using assms
  by (simp add: served_def handle_def Let_def entry_deferred run_deferred_panic
      del: run_deferred.simps)

lemma handle_returned_renamed:
  assumes "served h handler r0 w0 = (Returned, w3)"
    and "RoutePattern env (map_option (route_contexts w3) (ctx_route (req_ctx r0))) = Inr name"
  shows "handle env h handler r0 w0 =
     (Returned,
      (SetTransaction (fr_hub (handle_entry h r0 w0)) name w3,
       fr_calls (handle_entry h r0 w0)
           @ [Call_ServeHTTP (fr_request (handle_entry h r0 w0)),
              Call_RoutePattern (ctx_route (req_ctx r0)),
              Call_SetTransaction (fr_hub (handle_entry h r0 w0)) name,
              Call_Finish (fr_transaction (handle_entry h r0 w0))]))"
  using assms
  by (simp add: served_def handle_def handle_exit_def Let_def entry_deferred entry_tx_hub
      entry_route run_deferred_no_panic del: run_deferred.simps)

lemma handle_returned_route_panic:
  assumes "served h handler r0 w0 = (Returned, w3)"
    and "RoutePattern env (map_option (route_contexts w3) (ctx_route (req_ctx r0))) = Inl v"
  shows "handle env h handler r0 w0 =
     (if repanic h then Panicked v else Returned,
      (w3, fr_calls (handle_entry h r0 w0)
           @ [Call_ServeHTTP (fr_request (handle_entry h r0 w0)),
              Call_RoutePattern (ctx_route (req_ctx r0)),
              Call_RecoverWithContext (fr_hub (handle_entry h r0 w0))
                (WithValue_RequestContextKey (req_ctx (fr_request (handle_entry h r0 w0)))
                   (fr_request (handle_entry h r0 w0))) v]
           @ flush_calls env h (fr_hub (handle_entry h r0 w0))
               (fr_request (handle_entry h r0 w0)) v w3
           @ [Call_Finish (fr_transaction (handle_entry h r0 w0))]))"
  using assms
  by (simp add: served_def handle_def handle_exit_def Let_def entry_deferred entry_tx_hub
      entry_route run_deferred_panic del: run_deferred.simps)

text \<open>The lookup of the hub on the transaction's context never finds \<^verbatim>\<open>nil\<close>.\<close>

lemma handle_exit_hub_present:
  "fst (handle_exit env (fr_transaction (handle_entry h r0 w0)) r s) = Some v \<Longrightarrow>
   \<exists>rs. RoutePattern env rs = Inl v"
  by (auto simp: handle_exit_def entry_tx_hub Let_def split: prod.splits sum.splits)

subsection \<open>One transaction, finished once\<close>

text \<open>
  C1: in every run of the wrapper, whatever the wrapped handler does (it returns, it
  panics and the panic is swallowed, it panics and the recovery step panics again) and
  whatever the lookup of the route pattern does, the wrapper starts one transaction and
  calls \<^verbatim>\<open>Finish\<close> once, on that transaction.
\<close>

theorem transaction_finished_once:
  "started (calls_of (handle env h handler r0 w0)) = [fr_transaction (handle_entry h r0 w0)]
   \<and> finished (calls_of (handle env h handler r0 w0)) = [fr_transaction (handle_entry h r0 w0)]"
proof -
  obtain res w3 where run: "served h handler r0 w0 = (res, w3)"
    by (cases "served h handler r0 w0")
  show ?thesis
  proof (cases res)
    case Returned
    show ?thesis
    proof (cases "RoutePattern env (map_option (route_contexts w3) (ctx_route (req_ctx r0)))")
      case (Inl v)
      with run Returned show ?thesis
        by (simp add: handle_returned_route_panic run_projections select_append
            select_entry_calls select_flush_calls)
    next
      case (Inr name)
      with run Returned show ?thesis
        by (simp add: handle_returned_renamed run_projections select_append
            select_entry_calls)
    qed
  next
    case (Panicked v)
    with run show ?thesis
      by (simp add: handle_panicked run_projections select_append select_entry_calls
          select_flush_calls)
  qed
qed


subsection \<open>Re-panic policy\<close>

text \<open>
  C2: when the wrapped handler panics with a value \<open>v\<close>, the caller of the wrapper sees
  a panic with the same value \<open>v\<close> if \<open>repanic\<close> is set, and a normal return if it is
  not.
\<close>

theorem repanic_policy:
  assumes "served h handler r0 w0 = (Panicked v, w3)"
  shows "outcome_of (handle env h handler r0 w0) = (if repanic h then Panicked v else Returned)"
  using assms by (simp add: handle_panicked run_projections)

theorem repanic_policy_witness:
  "served (New \<lparr>Repanic = True, WaitForDelivery = False, Timeout = 0\<rparr>)
      panicking_handler example_request example_world
     = (Panicked (PanicString ''boom''),
        fr_world (handle_entry (New \<lparr>Repanic = True, WaitForDelivery = False, Timeout = 0\<rparr>)
           example_request example_world))
   \<and> outcome_of (handle example_collaborators
        (New \<lparr>Repanic = True, WaitForDelivery = False, Timeout = 0\<rparr>)
        panicking_handler example_request example_world) = Panicked (PanicString ''boom'')
   \<and> outcome_of (handle example_collaborators
        (New \<lparr>Repanic = False, WaitForDelivery = False, Timeout = 0\<rparr>)
        panicking_handler example_request example_world) = Returned"
proof -
  have panics: "served h panicking_handler example_request example_world
      = (Panicked (PanicString ''boom''), fr_world (handle_entry h example_request example_world))"
    for h
    by (simp add: served_def panicking_handler_def)
  show ?thesis
    using panics
      repanic_policy [OF panics [of "New \<lparr>Repanic = True, WaitForDelivery = False, Timeout = 0\<rparr>"],
        where env = example_collaborators]
      repanic_policy [OF panics [of "New \<lparr>Repanic = False, WaitForDelivery = False, Timeout = 0\<rparr>"],
        where env = example_collaborators]
    by (simp add: New_def)
qed

subsection \<open>Every panic of the wrapped handler is reported\<close>



subsection \<open>Order of the deferred calls\<close>

text \<open>
  C7: the finish of the transaction is deferred first and the recovery step second, so
  the recovery step is on top of the stack of deferred calls. When the wrapped handler
  panics, the calls after it are the report, the flush if there is one, and then the
  finish; the finish is called also when the recovery step panics again.
\<close>

theorem recovery_runs_before_finish:
  assumes "served h handler r0 w0 = (Panicked v, w3)"
  shows "fr_deferred (handle_entry h r0 w0) =
           [Defer_recoverWithSentry h (fr_hub (handle_entry h r0 w0))
              (fr_request (handle_entry h r0 w0)),
            Defer_Finish (fr_transaction (handle_entry h r0 w0))]
         \<and> calls_of (handle env h handler r0 w0) =
             fr_calls (handle_entry h r0 w0)
             @ [Call_ServeHTTP (fr_request (handle_entry h r0 w0)),
                Call_RecoverWithContext (fr_hub (handle_entry h r0 w0))
                  (WithValue_RequestContextKey (req_ctx (fr_request (handle_entry h r0 w0)))
                     (fr_request (handle_entry h r0 w0))) v]
             @ flush_calls env h (fr_hub (handle_entry h r0 w0))
                 (fr_request (handle_entry h r0 w0)) v w3
             @ [Call_Finish (fr_transaction (handle_entry h r0 w0))]
         \<and> outcome_of (handle env h handler r0 w0) = (if repanic h then Panicked v else Returned)"
  using assms by (simp add: handle_panicked run_projections entry_deferred)

theorem recovery_runs_before_finish_witness:
  "served (New \<lparr>Repanic = True, WaitForDelivery = True, Timeout = 500000000\<rparr>)
      panicking_handler example_request_with_hub example_world
     = (Panicked (PanicString ''boom''),
        fr_world (handle_entry (New \<lparr>Repanic = True, WaitForDelivery = True, Timeout = 500000000\<rparr>)
           example_request_with_hub example_world))
   \<and> drop 2 (calls_of (handle example_collaborators
        (New \<lparr>Repanic = True, WaitForDelivery = True, Timeout = 500000000\<rparr>)
        panicking_handler example_request_with_hub example_world))
     = [Call_ServeHTTP
          \<lparr>url_path = ''/users/42'',
           req_ctx = \<lparr>ctx_hub = Some 3, ctx_route = Some 0, ctx_transaction = Some ''/users/42''\<rparr>\<rparr>,
        Call_RecoverWithContext 3
          \<lparr>rc_parent = \<lparr>ctx_hub = Some 3, ctx_route = Some 0, ctx_transaction = Some ''/users/42''\<rparr>,
           rc_request = \<lparr>url_path = ''/users/42'',
             req_ctx = \<lparr>ctx_hub = Some 3, ctx_route = Some 0,
                        ctx_transaction = Some ''/users/42''\<rparr>\<rparr>\<rparr>
          (PanicString ''boom''),
        Call_Flush 3 500000000,
        Call_Finish
          \<lparr>tx_name = ''/users/42'',
           tx_options = [OpName ''http.server'', ContinueFromRequest example_request_with_hub,
                         TransctionSource SourceURL],
           tx_ctx = \<lparr>ctx_hub = Some 3, ctx_route = Some 0, ctx_transaction = Some ''/users/42''\<rparr>\<rparr>]
   \<and> outcome_of (handle example_collaborators
        (New \<lparr>Repanic = True, WaitForDelivery = True, Timeout = 500000000\<rparr>)
        panicking_handler example_request_with_hub example_world) = Panicked (PanicString ''boom'')"
proof -
  have panics: "served h panicking_handler example_request_with_hub example_world
      = (Panicked (PanicString ''boom''),
         fr_world (handle_entry h example_request_with_hub example_world))"
    for h
    by (simp add: served_def panicking_handler_def)
  show ?thesis
    using panics
      recovery_runs_before_finish [OF panics [of "New \<lparr>Repanic = True, WaitForDelivery = True, Timeout = 500000000\<rparr>"],
        where env = example_collaborators]
    by (simp add: New_def entry_hub entry_request entry_transaction entry_calls
        StartTransaction_def WithContext_def WithValue_RequestContextKey_def flush_calls_def
        example_request_with_hub_def example_world_def example_collaborators_def)
qed

subsection \<open>Waiting for delivery\<close>

text \<open>
  The recovery step calls \<^verbatim>\<open>Flush\<close> once, with the handler's timeout, exactly when the
  report produced an event identifier and \<open>waitForDelivery\<close> is set. How long \<^verbatim>\<open>Flush\<close>
  blocks is the SDK's business.
\<close>

lemma flush_after_report:
  assumes "served h handler r0 w0 = (Panicked v, w3)"
  shows "flushed (calls_of (handle env h handler r0 w0)) =
           (if RecoverWithContext env (fr_hub (handle_entry h r0 w0))
                 (WithValue_RequestContextKey (req_ctx (fr_request (handle_entry h r0 w0)))
                    (fr_request (handle_entry h r0 w0))) v w3 \<noteq> None
               \<and> waitForDelivery h
            then [(fr_hub (handle_entry h r0 w0), timeout h)] else [])"
  using assms
  by (simp add: handle_panicked run_projections select_append entry_calls flush_calls_def
      split: option.split)

lemma no_flush_without_panic:
  assumes "served h handler r0 w0 = (Returned, w3)"
    and "RoutePattern env (map_option (route_contexts w3) (ctx_route (req_ctx r0))) = Inr name"
  shows "flushed (calls_of (handle env h handler r0 w0)) = []"
  using assms
  by (simp add: handle_returned_renamed run_projections select_append entry_calls
      split: option.split)

subsection \<open>The name of the transaction\<close>



subsection \<open>The hub of the request\<close>





subsection \<open>A request without a routing context\<close>




subsection \<open>Construction of a handler\<close>

lemma two_seconds: "sint (2 * Second) = 2000000000"
  by (simp add: Second_def)

text \<open>
  C8: \<open>New\<close> copies \<open>Repanic\<close> and \<open>WaitForDelivery\<close>, keeps a non-zero \<open>Timeout\<close> and
  replaces a zero one by two seconds (2000000000 nanoseconds). A handler is a value that
  no function of the package returns changed, so the configuration stays as built.
\<close>

theorem New_configuration:
  "repanic (New options) = Repanic options
   \<and> waitForDelivery (New options) = WaitForDelivery options
   \<and> timeout (New options) = (if Timeout options = 0 then 2 * Second else Timeout options)
   \<and> sint (2 * Second) = 2000000000
   \<and> timeout (New options) \<noteq> 0"
  by (simp add: New_def Let_def Second_def)

subsection \<open>The two public entry points\<close>

text \<open>
  C10: \<open>HandleFunc\<close> applied to a handler function and \<open>Handle\<close> applied to the same
  function as an \<^verbatim>\<open>http.Handler\<close> are the same wrapper: both are \<open>handle\<close>.
\<close>

theorem HandleFunc_eq_Handle:
  "HandleFunc env h f = Handle env h (ServeHTTP f)
   \<and> Handle env h (ServeHTTP f) r w = handle env h f r w"
  by (simp add: HandleFunc_def Handle_def ServeHTTP_def)


end
